theory Spec2Isabelle
  imports Main "HOL-Library.AList"
begin

section \<open>Python values and errors\<close>

text \<open>
  Every exception the source can raise is a value of \<open>error\<close>; a function that can raise
  returns \<open>error + 'a\<close> with \<open>Inl\<close> for the exception.
\<close>

datatype error =
    ZeroDivisionError
  | KeyError
  | IndexError
  | ValueError
  | TypeError
  | RuntimeError
  | OSError
  | ClosedFileError
  | TorchError

text \<open>
  \<open>TorchError\<close> stands for the exception \<open>torch.tensor\<close> raises on a list it cannot
  turn into an integer tensor; its Python class depends on the offending element and is
  not distinguished.
\<close>

text \<open>
  A path is a POSIX \<open>pathlib\<close> path, kept as its tuple of parts: the anchor \<open>/\<close> or
  \<open>//\<close> first when the path is absolute, then the names. \<open>p / s\<close> with a string \<open>s\<close>
  cuts \<open>s\<close> at the slashes, drops the empty pieces and the pieces \<open>.\<close>, and appends
  the rest to the parts of \<open>p\<close>; when \<open>s\<close> begins with a slash the result is the
  absolute path of \<open>s\<close> alone (two leading slashes, and only two, are kept as the
  anchor \<open>//\<close>).
\<close>

type_synonym path = "string list"

fun split_slash :: "string \<Rightarrow> string list" where
  "split_slash [] = [[]]"
| "split_slash (c # cs) =
     (if c = CHR ''/'' then [] # split_slash cs
      else (case split_slash cs of
              [] \<Rightarrow> [[c]]
            | piece # pieces \<Rightarrow> (c # piece) # pieces))"

definition path_names :: "string \<Rightarrow> string list" where
  "path_names s = filter (\<lambda>piece. piece \<noteq> [] \<and> piece \<noteq> ''.'') (split_slash s)"

definition path_anchor :: "string \<Rightarrow> string" where
  "path_anchor s = (if take 2 s = ''//'' \<and> take 3 s \<noteq> ''///'' then ''//'' else ''/'')"

definition path_div :: "path \<Rightarrow> string \<Rightarrow> path" where
  "path_div p s =
     (if take 1 s = ''/'' then path_anchor s # path_names s else p @ path_names s)"

text \<open>\<open>list(range(a, b))\<close> on Python integers.\<close>

definition py_range :: "int \<Rightarrow> int \<Rightarrow> int list" where
  "py_range a b = [a..b - 1]"

text \<open>\<open>a % b\<close> on the non-negative integers of the progress test.\<close>

definition py_mod :: "nat \<Rightarrow> nat \<Rightarrow> error + nat" where
  "py_mod a b = (if b = 0 then Inl ZeroDivisionError else Inr (a mod b))"

text \<open>
  \<open>xs[i]\<close> on a Python list: a negative index counts from the end, an index out of range
  raises \<open>IndexError\<close>.
\<close>

definition py_index :: "'a list \<Rightarrow> int \<Rightarrow> error + 'a" where
  "py_index xs i =
     (if 0 \<le> i \<and> i < int (length xs) then Inr (xs ! nat i)
      else if i < 0 \<and> - int (length xs) \<le> i then Inr (xs ! nat (int (length xs) + i))
      else Inl IndexError)"

section \<open>Annotation source\<close>

text \<open>
  The annotation record that \<open>load_annotation_data\<close> returns: \<open>data['labels']\<close> is the
  ordered label vocabulary, \<open>data['database']\<close> a dictionary from video id to an entry with
  a subset tag and an annotation dictionary (\<open>label\<close> optional, \<open>segment\<close> a pair). A
  dictionary is an association list in insertion order.
\<close>

record annotation =
  ann_label :: "string option"
  ann_segment :: "int \<times> int"

record entry =
  entry_subset :: string
  entry_annotations :: annotation

record annotation_data =
  labels :: "string list"
  database :: "(string \<times> entry) list"

record sample =
  video :: path
  segment :: "int \<times> int"
  frame_indices :: "int list"
  video_id :: string
  label :: int

section \<open>Annotation indexer\<close>

text \<open>
  \<open>get_class_labels\<close>: the loop stores \<open>class_labels_map[class_label] = index\<close> and
  increments \<open>index\<close>. Assigning to a key that is already present keeps its place in the
  dictionary and replaces its value, which is what \<open>AList.update\<close> does.
\<close>

fun get_class_labels_loop ::
  "string list \<Rightarrow> (string \<times> int) list \<Rightarrow> int \<Rightarrow> (string \<times> int) list" where
  "get_class_labels_loop [] class_labels_map index = class_labels_map"
| "get_class_labels_loop (class_label # rest) class_labels_map index =
     get_class_labels_loop rest (AList.update class_label index class_labels_map) (index + 1)"

definition get_class_labels :: "annotation_data \<Rightarrow> (string \<times> int) list" where
  "get_class_labels data = get_class_labels_loop (labels data) [] 0"

text \<open>
  \<open>get_video_ids_and_annotations\<close>: the two lists grow together, so they are kept as one
  list of pairs \<open>(video_ids[i], annotations[i])\<close>.
\<close>

fun get_video_ids_and_annotations ::
  "(string \<times> entry) list \<Rightarrow> string \<Rightarrow> (string \<times> annotation) list" where
  "get_video_ids_and_annotations [] subset_tag = []"
| "get_video_ids_and_annotations ((key, val) # rest) subset_tag =
     (if entry_subset val = subset_tag
      then (key, entry_annotations val) # get_video_ids_and_annotations rest subset_tag
      else get_video_ids_and_annotations rest subset_tag)"

text \<open>The loop of \<open>make_dataset\<close> that inverts \<open>class_to_idx\<close>.\<close>

fun idx_to_class_loop :: "(string \<times> int) list \<Rightarrow> (int \<times> string) list \<Rightarrow> (int \<times> string) list" where
  "idx_to_class_loop [] idx_to_class = idx_to_class"
| "idx_to_class_loop ((name, lab) # rest) idx_to_class =
     idx_to_class_loop rest (AList.update lab name idx_to_class)"

text \<open>
  The label of a video: the label of its annotation with the index \<open>class_to_idx\<close>
  gives it (a label missing there raises), or \<open>test\<close> and \<open>-1\<close> when the annotation
  has none.
\<close>

definition resolve_label :: "(string \<times> int) list \<Rightarrow> annotation \<Rightarrow> error + string \<times> int" where
  "resolve_label class_to_idx ann =
     (case ann_label ann of
        Some lab \<Rightarrow>
          (case map_of class_to_idx lab of
             None \<Rightarrow> Inl KeyError
           | Some label_id \<Rightarrow> Inr (lab, label_id))
      | None \<Rightarrow> Inr (''test'', - 1))"

text \<open>
  One pass of the main loop of \<open>make_dataset\<close> for the video at position \<open>i\<close>. The file
  system is the map \<open>fs\<close> from a path to the frame collection stored under the key
  \<open>video\<close> of the archive at that path; \<open>video_path.exists()\<close> is \<open>fs video_path \<noteq> None\<close>.
  The progress line itself goes to standard output and is not part of the result; the
  test that guards it is evaluated, because it can raise. \<open>None\<close> is \<open>continue\<close>.
\<close>

definition make_sample ::
  "(path \<rightharpoonup> 'b list) \<Rightarrow> path \<Rightarrow> (string \<times> int) list \<Rightarrow> nat \<Rightarrow> nat \<Rightarrow>
   string \<times> annotation \<Rightarrow> error + sample option" where
  "make_sample fs root_path class_to_idx n_videos i va =
     (case py_mod i (n_videos div 5) of
        Inl e \<Rightarrow> Inl e
      | Inr _ \<Rightarrow>
         (case resolve_label class_to_idx (snd va) of
            Inl e \<Rightarrow> Inl e
          | Inr (lab, label_id) \<Rightarrow>
              (let video_path = path_div (path_div root_path lab) (fst va @ ''.hdf5'')
               in if fs video_path = None then Inr None
                  else (let seg = ann_segment (snd va)
                        in if snd seg = 1 then Inr None
                           else Inr (Some \<lparr>video = video_path,
                                            segment = seg,
                                            frame_indices = py_range (fst seg) (snd seg),
                                            video_id = fst va,
                                            label = label_id\<rparr>)))))"

fun make_dataset_loop ::
  "(path \<rightharpoonup> 'b list) \<Rightarrow> path \<Rightarrow> (string \<times> int) list \<Rightarrow> nat \<Rightarrow> nat \<Rightarrow>
   (string \<times> annotation) list \<Rightarrow> sample list \<Rightarrow> error + sample list" where
  "make_dataset_loop fs root_path class_to_idx n_videos i [] dataset = Inr dataset"
| "make_dataset_loop fs root_path class_to_idx n_videos i (va # rest) dataset =
     (case make_sample fs root_path class_to_idx n_videos i va of
        Inl e \<Rightarrow> Inl e
      | Inr None \<Rightarrow> make_dataset_loop fs root_path class_to_idx n_videos (Suc i) rest dataset
      | Inr (Some s) \<Rightarrow>
          make_dataset_loop fs root_path class_to_idx n_videos (Suc i) rest (dataset @ [s]))"

definition make_dataset ::
  "(path \<rightharpoonup> 'b list) \<Rightarrow> path \<Rightarrow> annotation_data \<Rightarrow> string \<Rightarrow>
   error + (sample list \<times> (int \<times> string) list)" where
  "make_dataset fs root_path data subset_tag =
     (let vas = get_video_ids_and_annotations (database data) subset_tag;
          class_to_idx = get_class_labels data;
          idx_to_class = idx_to_class_loop class_to_idx [];
          n_videos = length vas
      in case make_dataset_loop fs root_path class_to_idx n_videos 0 vas [] of
           Inl e \<Rightarrow> Inl e
         | Inr dataset \<Rightarrow> Inr (dataset, idx_to_class))"

section \<open>Archive reader\<close>

text \<open>
  A frame is what \<open>Image.open\<close> returns for one stored blob, or a tensor, of which only the
  shape is kept (its numbers are floating point and play no part below). Decoding is the
  constructor itself: a blob that is not an encoded image is outside the model.
\<close>

datatype 'b frame = Image_open 'b | Tensor "nat list"

text \<open>
  What closing an \<open>h5py.File\<close> does to the objects obtained from it. The library
  documents that they become invalid, so that every later access raises
  (\<open>Objects_invalidated\<close>); the other behaviour, a collection that stays readable, is
  kept as \<open>Objects_stay_readable\<close> so that the loop of the reader can be studied on
  its own.
\<close>

datatype h5_close = Objects_invalidated | Objects_stay_readable

record 'b h5_dataset =
  ds_blobs :: "'b list"
  ds_valid :: bool

definition h5_len :: "'b h5_dataset \<Rightarrow> error + nat" where
  "h5_len video_data =
     (if ds_valid video_data then Inr (length (ds_blobs video_data)) else Inl ClosedFileError)"

definition h5_getitem :: "'b h5_dataset \<Rightarrow> int \<Rightarrow> error + 'b" where
  "h5_getitem video_data i =
     (if ds_valid video_data then py_index (ds_blobs video_data) i else Inl ClosedFileError)"

text \<open>The loop of \<open>video_loader\<close>, which runs after the \<open>with\<close> block.\<close>

fun video_loader_loop ::
  "'b h5_dataset \<Rightarrow> int list \<Rightarrow> 'b frame list \<Rightarrow> error + 'b frame list" where
  "video_loader_loop video_data [] video' = Inr video'"
| "video_loader_loop video_data (i # rest) video' =
     (case h5_len video_data of
        Inl e \<Rightarrow> Inl e
      | Inr n \<Rightarrow>
          if i < int n
          then (case h5_getitem video_data i of
                  Inl e \<Rightarrow> Inl e
                | Inr blob \<Rightarrow> video_loader_loop video_data rest (video' @ [Image_open blob]))
          else Inr video')"

text \<open>
  \<open>video_loader\<close>: the \<open>with\<close> block opens the file (a missing file raises), binds
  \<open>video_data = f['video']\<close> and, on leaving, closes the file; the loop comes after it.
\<close>

definition video_loader ::
  "h5_close \<Rightarrow> (path \<rightharpoonup> 'b list) \<Rightarrow> path \<Rightarrow> int list \<Rightarrow> error + 'b frame list" where
  "video_loader closing fs video_file_path frame_indices' =
     (case fs video_file_path of
        None \<Rightarrow> Inl OSError
      | Some blobs \<Rightarrow>
          (let video_data = \<lparr>ds_blobs = blobs, ds_valid = True\<rparr>;
               video_data = video_data\<lparr>ds_valid := (closing = Objects_stay_readable)\<rparr>
           in video_loader_loop video_data frame_indices' []))"

section \<open>The dataset object\<close>

text \<open>
  Values a target can be: an integer, a string, a list, or a reference to a descriptor
  dictionary in the store (\<open>PDict a\<close> is the dictionary at address \<open>a\<close> itself, not a copy
  of it).
\<close>

datatype pyval = PInt int | PStr string | PList "pyval list" | PDict nat

text \<open>What a temporal transform returns: a list of indices, or a list of such lists.\<close>

datatype findices = Flat "int list" | Nested "int list list"

text \<open>A clip, or the list of clips of a multi-window sample; a clip is the shape of its tensor.\<close>

datatype clip_entry = One "nat list" | Many "nat list list"

text \<open>
  A spatial transform is an object with parameters that \<open>randomize_parameters()\<close> redraws
  and a call that uses them.
\<close>

record ('r, 'b) spatial =
  params :: 'r
  randomize_parameters :: "'r \<Rightarrow> 'r"
  call :: "'r \<Rightarrow> 'b frame \<Rightarrow> 'b frame"

text \<open>
  The dataset object. The descriptor dictionaries live in \<open>store\<close>, a dictionary's address
  being its position there; \<open>data\<close> is \<open>self.data\<close>, the list of references to them. A
  target transform receives the dictionary it is called on (its address and its present
  contents).
\<close>

record ('r, 'b) video_dataset =
  store :: "sample list"
  data :: "nat list"
  class_names :: "(int \<times> string) list"
  spatial_transform :: "('r, 'b) spatial option"
  temporal_transform :: "(int list \<Rightarrow> findices) option"
  target_transform :: "(nat \<Rightarrow> sample \<Rightarrow> pyval) option"
  loader :: "path \<Rightarrow> int list \<Rightarrow> error + 'b frame list"

definition VideoDataset_init ::
  "h5_close \<Rightarrow> (path \<rightharpoonup> 'b list) \<Rightarrow> path \<Rightarrow> annotation_data \<Rightarrow> string \<Rightarrow>
   ('r, 'b) spatial option \<Rightarrow> (int list \<Rightarrow> findices) option \<Rightarrow>
   (nat \<Rightarrow> sample \<Rightarrow> pyval) option \<Rightarrow> error + ('r, 'b) video_dataset" where
  "VideoDataset_init closing fs root_path annotation subset_tag sp tt tg =
     (case make_dataset fs root_path annotation subset_tag of
        Inl e \<Rightarrow> Inl e
      | Inr (dataset, idx_to_class) \<Rightarrow>
          Inr \<lparr>store = dataset, data = [0..<length dataset], class_names = idx_to_class,
               spatial_transform = sp, temporal_transform = tt, target_transform = tg,
               loader = video_loader closing fs\<rparr>)"

definition len :: "('r, 'b) video_dataset \<Rightarrow> nat" where
  "len self = length (data self)"

subsection \<open>Building a clip\<close>

text \<open>\<open>torch.stack(clip, 0)\<close>: every element a tensor, at least one, all of one shape.\<close>

fun tensor_shapes :: "'b frame list \<Rightarrow> error + nat list list" where
  "tensor_shapes [] = Inr []"
| "tensor_shapes (Image_open b # rest) = Inl TypeError"
| "tensor_shapes (Tensor sh # rest) =
     (case tensor_shapes rest of Inl e \<Rightarrow> Inl e | Inr shs \<Rightarrow> Inr (sh # shs))"

definition stack_shapes :: "nat list list \<Rightarrow> error + nat list" where
  "stack_shapes shs =
     (case shs of
        [] \<Rightarrow> Inl RuntimeError
      | sh # rest \<Rightarrow>
          if list_all (\<lambda>s. s = sh) rest then Inr (length shs # sh) else Inl RuntimeError)"

definition torch_stack :: "'b frame list \<Rightarrow> error + nat list" where
  "torch_stack clip =
     (case tensor_shapes clip of Inl e \<Rightarrow> Inl e | Inr shs \<Rightarrow> stack_shapes shs)"

text \<open>\<open>.permute(1, 0, 2, 3)\<close>, defined on tensors of four axes.\<close>

definition permute_1023 :: "nat list \<Rightarrow> error + nat list" where
  "permute_1023 sh =
     (case sh of [d0, d1, d2, d3] \<Rightarrow> Inr [d1, d0, d2, d3] | _ \<Rightarrow> Inl RuntimeError)"

text \<open>
  \<open>loading\<close> returns the clip or the exception, and the object as the call leaves it
  (the parameters of the spatial transform are redrawn before the frames are transformed).
\<close>

definition loading ::
  "('r, 'b) video_dataset \<Rightarrow> path \<Rightarrow> int list \<Rightarrow> (error + nat list) \<times> ('r, 'b) video_dataset" where
  "loading self p frame_indices' =
     (case loader self p frame_indices' of
        Inl e \<Rightarrow> (Inl e, self)
      | Inr clip \<Rightarrow>
          (let (clip, self) =
                 (case spatial_transform self of
                    None \<Rightarrow> (clip, self)
                  | Some sp \<Rightarrow>
                      (let sp = sp\<lparr>params := randomize_parameters sp (params sp)\<rparr>
                       in (map (call sp (params sp)) clip,
                           self\<lparr>spatial_transform := Some sp\<rparr>)))
           in (case torch_stack clip of
                 Inl e \<Rightarrow> (Inl e, self)
               | Inr stacked \<Rightarrow> (permute_1023 stacked, self))))"

subsection \<open>Temporal windower\<close>

text \<open>
  \<open>range(start, stop, step)\<close>: a zero step raises \<open>ValueError\<close>, a positive step counts
  up while below \<open>stop\<close>, a negative step counts down while above it.
\<close>

function range_up :: "int \<Rightarrow> int \<Rightarrow> int \<Rightarrow> int list" where
  "range_up t stop step =
     (if 0 < step \<and> t < stop then t # range_up (t + step) stop step else [])"
  by pat_completeness auto
termination
  by (relation "measure (\<lambda>(t, stop, step). nat (stop - t))") auto

function range_down :: "int \<Rightarrow> int \<Rightarrow> int \<Rightarrow> int list" where
  "range_down t stop step =
     (if step < 0 \<and> stop < t then t # range_down (t + step) stop step else [])"
  by pat_completeness auto
termination
  by (relation "measure (\<lambda>(t, stop, step). nat (t - stop))") auto

declare range_up.simps [simp del] range_down.simps [simp del]

definition py_range_step :: "int \<Rightarrow> int \<Rightarrow> int \<Rightarrow> error + int list" where
  "py_range_step start stop step =
     (if step = 0 then Inl ValueError
      else if 0 < step then Inr (range_up start stop step)
      else Inr (range_down start stop step))"

text \<open>
  The inner loop of \<open>temporal_sliding_window\<close> for one descriptor \<open>x\<close>: each window is a
  deep copy of \<open>x\<close>, a new dictionary at the next free address of the store, with its
  segment and frame indices replaced; its reference is appended to the new list.
\<close>

fun window_loop ::
  "sample list \<Rightarrow> sample \<Rightarrow> int \<Rightarrow> int \<Rightarrow> int list \<Rightarrow> nat list \<Rightarrow> sample list \<times> nat list" where
  "window_loop st x t_end sample_duration [] new_data = (st, new_data)"
| "window_loop st x t_end sample_duration (t # ts) new_data =
     (let sample = x;
          seg = (t, min (t + sample_duration) t_end);
          sample = sample\<lparr>segment := seg\<rparr>;
          sample = sample\<lparr>frame_indices := py_range (fst seg) (snd seg)\<rparr>
      in window_loop (st @ [sample]) x t_end sample_duration ts (new_data @ [length st]))"

fun sliding_loop ::
  "sample list \<Rightarrow> int \<Rightarrow> int \<Rightarrow> nat list \<Rightarrow> nat list \<Rightarrow> error + sample list \<times> nat list" where
  "sliding_loop st sample_duration sample_stride [] new_data = Inr (st, new_data)"
| "sliding_loop st sample_duration sample_stride (r # rs) new_data =
     (let x = st ! r; t_begin = fst (segment x); t_end = snd (segment x)
      in case py_range_step t_begin t_end sample_stride of
           Inl e \<Rightarrow> Inl e
         | Inr ts \<Rightarrow>
             (case window_loop st x t_end sample_duration ts new_data of
                (st', new_data') \<Rightarrow>
                  sliding_loop st' sample_duration sample_stride rs new_data'))"

text \<open>
  \<open>temporal_sliding_window\<close> assigns \<open>self.data\<close> only when both loops have finished; an
  exception leaves the object as it was.
\<close>

definition temporal_sliding_window ::
  "('r, 'b) video_dataset \<Rightarrow> int \<Rightarrow> int \<Rightarrow> (error + unit) \<times> ('r, 'b) video_dataset" where
  "temporal_sliding_window self sample_duration sample_stride =
     (case sliding_loop (store self) sample_duration sample_stride (data self) [] of
        Inl e \<Rightarrow> (Inl e, self)
      | Inr (st', new_data) \<Rightarrow> (Inr (), self\<lparr>store := st', data := new_data\<rparr>))"

subsection \<open>Sample assembler\<close>

text \<open>
  The loop of the multi-window branch of \<open>__getitem__\<close>. \<open>target\<close> is the reference
  \<open>self.data[index]\<close>; \<open>current_target = target\<close> binds the same dictionary, so the
  assignment to \<open>current_target['segment']\<close> writes to the store at that address.
\<close>

fun multi_window_loop ::
  "('r, 'b) video_dataset \<Rightarrow> path \<Rightarrow> nat \<Rightarrow> int list list \<Rightarrow> nat list list \<Rightarrow> pyval list \<Rightarrow>
   (error + clip_entry \<times> pyval) \<times> ('r, 'b) video_dataset" where
  "multi_window_loop self p target [] clips targets = (Inr (Many clips, PList targets), self)"
| "multi_window_loop self p target (one_frame_indices # rest) clips targets =
     (case loading self p one_frame_indices of
        (Inl e, self) \<Rightarrow> (Inl e, self)
      | (Inr clip, self) \<Rightarrow>
          (case py_index one_frame_indices 0 of
             Inl e \<Rightarrow> (Inl e, self)
           | Inr first \<Rightarrow>
               (case py_index one_frame_indices (- 1) of
                  Inl e \<Rightarrow> (Inl e, self)
                | Inr final \<Rightarrow>
                    (let current_target = target;
                         self = self\<lparr>store :=
                                  (store self)[current_target :=
                                     (store self ! current_target)\<lparr>segment := (first, final + 1)\<rparr>]\<rparr>;
                         current_target' =
                           (case target_transform self of
                              None \<Rightarrow> PDict current_target
                            | Some f \<Rightarrow> f current_target (store self ! current_target))
                     in multi_window_loop self p target rest
                          (clips @ [clip]) (targets @ [current_target'])))))"

text \<open>
  \<open>__getitem__\<close>. \<open>frame_indices[0]\<close> raises on an empty list, flat or nested; the test
  on its type chooses the branch.
\<close>

definition getitem ::
  "('r, 'b) video_dataset \<Rightarrow> int \<Rightarrow> (error + clip_entry \<times> pyval) \<times> ('r, 'b) video_dataset" where
  "getitem self index =
     (case py_index (data self) index of
        Inl e \<Rightarrow> (Inl e, self)
      | Inr target \<Rightarrow>
          (let p = video (store self ! target);
               fi = frame_indices (store self ! target);
               fi = (case temporal_transform self of None \<Rightarrow> Flat fi | Some tt \<Rightarrow> tt fi)
           in case fi of
                Flat [] \<Rightarrow> (Inl IndexError, self)
              | Nested [] \<Rightarrow> (Inl IndexError, self)
              | Nested (w # ws) \<Rightarrow> multi_window_loop self p target (w # ws) [] []
              | Flat (i # is) \<Rightarrow>
                  (case loading self p (i # is) of
                     (Inl e, self) \<Rightarrow> (Inl e, self)
                   | (Inr clip, self) \<Rightarrow>
                       (let target' =
                              (case target_transform self of
                                 None \<Rightarrow> PDict target
                               | Some f \<Rightarrow> f target (store self ! target))
                        in (Inr (One clip, target'), self)))))"

section \<open>Batch collator\<close>

text \<open>
  Iterating a value in a comprehension: a list gives its elements, a tensor its slices
  along the first axis (none for a tensor without axes, which raises), a string its
  characters, a descriptor dictionary its keys, an integer raises.
\<close>

definition iter_clips :: "clip_entry \<Rightarrow> error + clip_entry list" where
  "iter_clips multi_clips =
     (case multi_clips of
        Many cs \<Rightarrow> Inr (map One cs)
      | One [] \<Rightarrow> Inl TypeError
      | One (n # sh) \<Rightarrow> Inr (replicate n (One sh)))"

definition iter_targets :: "pyval \<Rightarrow> error + pyval list" where
  "iter_targets multi_targets =
     (case multi_targets of
        PList ts \<Rightarrow> Inr ts
      | PInt n \<Rightarrow> Inl TypeError
      | PStr s \<Rightarrow> Inr (map (\<lambda>c. PStr [c]) s)
      | PDict a \<Rightarrow>
          Inr (map PStr [''video'', ''segment'', ''frame_indices'', ''video_id'', ''label'']))"

fun flatten_with :: "('a \<Rightarrow> error + 'a list) \<Rightarrow> 'a list \<Rightarrow> error + 'a list" where
  "flatten_with it [] = Inr []"
| "flatten_with it (x # xs) =
     (case it x of
        Inl e \<Rightarrow> Inl e
      | Inr ys \<Rightarrow> (case flatten_with it xs of Inl e \<Rightarrow> Inl e | Inr zs \<Rightarrow> Inr (ys @ zs)))"

text \<open>
  \<open>default_collate\<close> on the clips stacks tensors of one shape along a new first axis; on
  targets whose first element is an integer it calls \<open>torch.tensor\<close> on the list, which
  gives the tensor of the integers when every element is an integer of 64 signed bits and
  raises otherwise.
\<close>

fun clip_shapes :: "clip_entry list \<Rightarrow> error + nat list list" where
  "clip_shapes [] = Inr []"
| "clip_shapes (Many cs # rest) = Inl TypeError"
| "clip_shapes (One sh # rest) =
     (case clip_shapes rest of Inl e \<Rightarrow> Inl e | Inr shs \<Rightarrow> Inr (sh # shs))"

definition default_collate_clips :: "clip_entry list \<Rightarrow> error + nat list" where
  "default_collate_clips batch_clips =
     (case batch_clips of
        [] \<Rightarrow> Inl IndexError
      | _ # _ \<Rightarrow>
          (case clip_shapes batch_clips of Inl e \<Rightarrow> Inl e | Inr shs \<Rightarrow> stack_shapes shs))"

definition in_int64 :: "int \<Rightarrow> bool" where
  "in_int64 n = (- 9223372036854775808 \<le> n \<and> n < 9223372036854775808)"

fun the_ints :: "pyval list \<Rightarrow> error + int list" where
  "the_ints [] = Inr []"
| "the_ints (PInt n # rest) =
     (if in_int64 n
      then (case the_ints rest of Inl e \<Rightarrow> Inl e | Inr ns \<Rightarrow> Inr (n # ns))
      else Inl TorchError)"
| "the_ints (v # rest) = Inl TorchError"

datatype collated_targets = IntTensor "int list" | TargetList "pyval list"

fun is_int :: "pyval \<Rightarrow> bool" where
  "is_int (PInt n) = True"
| "is_int v = False"

text \<open>
  \<open>collate_fn\<close>. Unpacking \<open>zip(*batch)\<close> into two names raises on an empty batch.
  The clips are collated before the targets.
\<close>

definition collate_fn :: "(clip_entry \<times> pyval) list \<Rightarrow> error + nat list \<times> collated_targets" where
  "collate_fn batch =
     (case batch of
        [] \<Rightarrow> Inl ValueError
      | first # _ \<Rightarrow>
          (case (case fst first of
                   Many _ \<Rightarrow>
                     (case flatten_with iter_clips (map fst batch) of
                        Inl e \<Rightarrow> Inl e
                      | Inr batch_clips \<Rightarrow>
                          (case flatten_with iter_targets (map snd batch) of
                             Inl e \<Rightarrow> Inl e
                           | Inr batch_targets \<Rightarrow> Inr (batch_clips, batch_targets)))
                 | One _ \<Rightarrow> Inr (map fst batch, map snd batch)) of
             Inl e \<Rightarrow> Inl e
           | Inr (batch_clips, batch_targets) \<Rightarrow>
               (case batch_targets of
                  [] \<Rightarrow> Inl IndexError
                | t0 # _ \<Rightarrow>
                    (case default_collate_clips batch_clips of
                       Inl e \<Rightarrow> Inl e
                     | Inr clips \<Rightarrow>
                         if is_int t0
                         then (case the_ints batch_targets of
                                 Inl e \<Rightarrow> Inl e
                               | Inr ns \<Rightarrow> Inr (clips, IntTensor ns))
                         else Inr (clips, TargetList batch_targets)))))"

section \<open>The windows the specification asks for\<close>

text \<open>
  Written from the words of the specification, to be compared with
  \<open>temporal_sliding_window\<close>: the windows of a descriptor with segment \<open>[t0, t1)\<close> start
  at \<open>t0\<close>, \<open>t0 + stride\<close>, \<open>t0 + 2 * stride\<close>, ... while the start is below \<open>t1\<close>
  (there are \<open>\<lceil>(t1 - t0) / stride\<rceil>\<close> of them); a window is the descriptor with its
  segment set to \<open>[start, min (start + duration) t1)\<close> and its frame indices to the
  integers of that range.
\<close>

definition window_starts :: "int \<Rightarrow> int \<Rightarrow> int \<Rightarrow> int list" where
  "window_starts t0 t1 stride =
     map (\<lambda>k. t0 + int k * stride) [0..<nat ((t1 - t0 + stride - 1) div stride)]"

definition window_of :: "sample \<Rightarrow> int \<Rightarrow> int \<Rightarrow> sample" where
  "window_of x duration start =
     x\<lparr>segment := (start, min (start + duration) (snd (segment x))),
       frame_indices := py_range start (min (start + duration) (snd (segment x)))\<rparr>"

definition sliding_windows :: "sample \<Rightarrow> int \<Rightarrow> int \<Rightarrow> sample list" where
  "sliding_windows x duration stride =
     map (window_of x duration) (window_starts (fst (segment x)) (snd (segment x)) stride)"

section \<open>The descriptors the build retains\<close>

text \<open>
  Written from the rule of the build step, to be compared with \<open>make_dataset\<close>: a
  candidate is retained when the archive \<open>root / label / id.hdf5\<close> exists and the end
  bound of its segment is not 1; its descriptor carries that path, the segment, the
  integers of the segment as frame indices, the video id and the class index.
\<close>

definition spec_descriptor :: "path \<Rightarrow> string \<Rightarrow> int \<Rightarrow> string \<times> annotation \<Rightarrow> sample" where
  "spec_descriptor root_path lab label_id va =
     \<lparr>video = path_div (path_div root_path lab) (fst va @ ''.hdf5''),
      segment = ann_segment (snd va),
      frame_indices = py_range (fst (ann_segment (snd va))) (snd (ann_segment (snd va))),
      video_id = fst va,
      label = label_id\<rparr>"

definition spec_retained ::
  "(path \<rightharpoonup> 'b list) \<Rightarrow> path \<Rightarrow> (string \<times> int) list \<Rightarrow> string \<times> annotation \<Rightarrow>
   sample option" where
  "spec_retained fs root_path class_to_idx va =
     (case resolve_label class_to_idx (snd va) of
        Inl e \<Rightarrow> None
      | Inr (lab, label_id) \<Rightarrow>
          (let d = spec_descriptor root_path lab label_id va
           in if fs (video d) \<noteq> None \<and> snd (segment d) \<noteq> 1 then Some d else None))"

section \<open>Concrete inputs\<close>

text \<open>An archive of two frames and one of four, at the same path; blobs are numbers.\<close>

definition ex_path :: path where
  "ex_path = [''root'', ''a'', ''v0.hdf5'']"

definition ex_fs2 :: "path \<rightharpoonup> nat list" where
  "ex_fs2 = [ex_path \<mapsto> [10, 11]]"

definition ex_fs4 :: "path \<rightharpoonup> nat list" where
  "ex_fs4 = [ex_path \<mapsto> [10, 11, 12, 13]]"

text \<open>
  A dataset of one descriptor over the four-frame archive, with a spatial transform that
  turns every frame into a tensor of shape \<open>(3, 112, 112)\<close>, a temporal transform that
  returns \<open>[[0, 1], [2, 3]]\<close>, no target transform, and a reader whose collection stays
  readable.
\<close>

definition ex_sample :: sample where
  "ex_sample = \<lparr>video = ex_path, segment = (0, 4), frame_indices = [0, 1, 2, 3],
                video_id = ''v0'', label = 0\<rparr>"

definition ex_spatial :: "(nat, nat) spatial" where
  "ex_spatial = \<lparr>params = 0, randomize_parameters = Suc,
                 call = (\<lambda>r f. Tensor [3, 112, 112])\<rparr>"

definition ex_dataset :: "(nat, nat) video_dataset" where
  "ex_dataset = \<lparr>store = [ex_sample], data = [0], class_names = [(0, ''a'')],
                 spatial_transform = Some ex_spatial,
                 temporal_transform = Some (\<lambda>fi. Nested [[0, 1], [2, 3]]),
                 target_transform = None,
                 loader = video_loader Objects_stay_readable ex_fs4\<rparr>"

text \<open>The same dataset with a target transform that copies the segment out of the dictionary.\<close>

definition ex_segment_transform :: "nat \<Rightarrow> sample \<Rightarrow> pyval" where
  "ex_segment_transform a d = PList [PInt (fst (segment d)), PInt (snd (segment d))]"

definition ex_dataset_segments :: "(nat, nat) video_dataset" where
  "ex_dataset_segments = ex_dataset\<lparr>target_transform := Some ex_segment_transform\<rparr>"

text \<open>The same dataset with the reader as the library reads.\<close>

definition ex_dataset_closed :: "(nat, nat) video_dataset" where
  "ex_dataset_closed = ex_dataset\<lparr>loader := video_loader Objects_invalidated ex_fs4\<rparr>"

text \<open>A dataset of one descriptor with segment \<open>[0, 10)\<close>.\<close>

definition ex_long :: "(nat, nat) video_dataset" where
  "ex_long = ex_dataset\<lparr>store := [ex_sample\<lparr>segment := (0, 10),
                                              frame_indices := [0, 1, 2, 3, 4, 5, 6, 7, 8, 9]\<rparr>]\<rparr>"

text \<open>
  An annotation source with five training videos and two validation videos. The archive
  of \<open>v3\<close> is missing; the segments are \<open>[5, 6)\<close>, \<open>[0, 1)\<close>, \<open>[3, 3)\<close>, \<open>[0, 4)\<close>
  and \<open>[0, 4)\<close>.
\<close>

definition ex_entry :: "string \<Rightarrow> string \<Rightarrow> int \<times> int \<Rightarrow> entry" where
  "ex_entry tag lab seg =
     \<lparr>entry_subset = tag, entry_annotations = \<lparr>ann_label = Some lab, ann_segment = seg\<rparr>\<rparr>"

definition ex_annotation :: annotation_data where
  "ex_annotation =
     \<lparr>labels = [''a'', ''b''],
      database =
        [(''v0'', ex_entry ''training'' ''a'' (5, 6)),
         (''v1'', ex_entry ''training'' ''a'' (0, 1)),
         (''w0'', ex_entry ''validation'' ''b'' (0, 4)),
         (''v2'', ex_entry ''training'' ''b'' (3, 3)),
         (''v3'', ex_entry ''training'' ''b'' (0, 4)),
         (''w1'', ex_entry ''validation'' ''a'' (0, 4)),
         (''v4'', ex_entry ''training'' ''a'' (0, 4))]\<rparr>"

definition ex_build_fs :: "path \<rightharpoonup> nat list" where
  "ex_build_fs =
     [[''root'', ''a'', ''v0.hdf5''] \<mapsto> [10],
      [''root'', ''a'', ''v1.hdf5''] \<mapsto> [],
      [''root'', ''b'', ''v2.hdf5''] \<mapsto> [10, 11, 12],
      [''root'', ''a'', ''v4.hdf5''] \<mapsto> [10, 11, 12, 13],
      [''root'', ''b'', ''w0.hdf5''] \<mapsto> [10, 11, 12, 13]]"

definition ex_retained :: "sample list" where
  "ex_retained =
     [\<lparr>video = [''root'', ''a'', ''v0.hdf5''], segment = (5, 6), frame_indices = [5],
       video_id = ''v0'', label = 0\<rparr>,
      \<lparr>video = [''root'', ''b'', ''v2.hdf5''], segment = (3, 3), frame_indices = [],
       video_id = ''v2'', label = 1\<rparr>,
      \<lparr>video = [''root'', ''a'', ''v4.hdf5''], segment = (0, 4), frame_indices = [0, 1, 2, 3],
       video_id = ''v4'', label = 0\<rparr>]"

definition ex_built :: "(nat, nat) video_dataset" where
  "ex_built = \<lparr>store = ex_retained, data = [0, 1, 2], class_names = [(0, ''a''), (1, ''b'')],
               spatial_transform = Some ex_spatial, temporal_transform = None,
               target_transform = None,
               loader = video_loader Objects_stay_readable ex_build_fs\<rparr>"

text \<open>The same dataset as the constructor builds it, with the reader as the library reads.\<close>

definition ex_built_closed :: "(nat, nat) video_dataset" where
  "ex_built_closed = ex_built\<lparr>loader := video_loader Objects_invalidated ex_build_fs\<rparr>"

text \<open>A label vocabulary in which a label occurs twice, and one without repetition.\<close>

definition ex_labels_twice :: annotation_data where
  "ex_labels_twice = \<lparr>labels = [''a'', ''b'', ''a''], database = []\<rparr>"

definition ex_labels_three :: annotation_data where
  "ex_labels_three = \<lparr>labels = [''a'', ''b'', ''c''], database = []\<rparr>"



section \<open>Properties of the annotation indexer\<close>

subsection \<open>Class mapping\<close>

lemma update_fresh: "k \<notin> fst ` set m \<Longrightarrow> AList.update k v m = m @ [(k, v)]"
  by (induction m) auto

lemma get_class_labels_loop_distinct:
  "distinct ls \<Longrightarrow> set ls \<inter> fst ` set m = {} \<Longrightarrow>
   get_class_labels_loop ls m k = m @ zip ls (map (\<lambda>j. k + int j) [0..<length ls])"
proof (induction ls arbitrary: m k)
  case Nil
  then show ?case by simp
next
  case (Cons l ls)
  have fresh: "l \<notin> fst ` set m" using Cons.prems(2) by auto
  have d: "distinct ls" using Cons.prems(1) by simp
  have dis: "set ls \<inter> fst ` set (m @ [(l, k)]) = {}" using Cons.prems by auto
  have shift: "map (\<lambda>j. k + int j) [0..<Suc (length ls)] =
        k # map (\<lambda>j. (k + 1) + int j) [0..<length ls]"
    by (simp add: upt_conv_Cons map_Suc_upt[symmetric] del: upt_Suc)
  show ?case
    using Cons.IH[OF d dis, of "k + 1"] fresh shift
    by (simp add: update_fresh del: upt_Suc)
qed

lemma idx_to_class_loop_distinct:
  "distinct (map snd c) \<Longrightarrow> snd ` set c \<inter> fst ` set acc = {} \<Longrightarrow>
   idx_to_class_loop c acc = acc @ zip (map snd c) (map fst c)"
proof (induction c arbitrary: acc)
  case Nil
  then show ?case by simp
next
  case (Cons p c)
  obtain name i where p: "p = (name, i)" by (cases p)
  have fresh: "i \<notin> fst ` set acc" using Cons.prems(2) p by auto
  have d: "distinct (map snd c)" using Cons.prems(1) by simp
  have dis: "snd ` set c \<inter> fst ` set (acc @ [(i, name)]) = {}"
    using Cons.prems p by auto
  show ?case using Cons.IH[OF d dis] fresh p by (simp add: update_fresh)
qed

lemma class_labels_distinct:
  assumes "distinct (labels ann)"
  shows "get_class_labels ann = zip (labels ann) (map int [0..<length (labels ann)])"
  using get_class_labels_loop_distinct[OF assms, of "[]" 0]
  by (simp add: get_class_labels_def)

lemma idx_to_class_distinct:
  assumes "distinct (labels ann)"
  shows "idx_to_class_loop (get_class_labels ann) [] =
         zip (map int [0..<length (labels ann)]) (labels ann)"
proof -
  let ?is = "map int [0..<length (labels ann)]"
  have d: "distinct ?is" by (simp add: distinct_map)
  have "idx_to_class_loop (zip (labels ann) ?is) [] =
        [] @ zip (map snd (zip (labels ann) ?is)) (map fst (zip (labels ann) ?is))"
    by (rule idx_to_class_loop_distinct) (simp_all add: d)
  then show ?thesis by (simp add: class_labels_distinct[OF assms])
qed

lemma map_of_zip_swap:
  assumes "distinct xs" "distinct ys" "length xs = length ys"
  shows "map_of (zip ys xs) y = Some x \<longleftrightarrow> map_of (zip xs ys) x = Some y"
proof -
  have a: "map_of (zip ys xs) y = Some x \<longleftrightarrow> (y, x) \<in> set (zip ys xs)"
    using assms by (simp add: map_of_eq_Some_iff)
  have b: "map_of (zip xs ys) x = Some y \<longleftrightarrow> (x, y) \<in> set (zip xs ys)"
    using assms by (simp add: map_of_eq_Some_iff)
  have c: "(y, x) \<in> set (zip ys xs) \<longleftrightarrow> (x, y) \<in> set (zip xs ys)"
    by (auto simp: in_set_zip)
  show ?thesis using a b c by simp
qed

text \<open>
  Claim C7, as amended. For a label vocabulary of \<open>K\<close> pairwise distinct entries,
  \<open>class_to_idx\<close> pairs the labels, in file order, with the indices \<open>0, ..., K - 1\<close>;
  \<open>idx_to_class\<close> pairs the indices with the labels, and an index is mapped to a name
  exactly when the name is mapped to the index. Both are functions of the vocabulary alone,
  so a repeated build gives the same mapping.
\<close>

theorem class_mapping_of_distinct_labels:
  assumes "distinct (labels ann)"
  shows "get_class_labels ann = zip (labels ann) (map int [0..<length (labels ann)])
       \<and> idx_to_class_loop (get_class_labels ann) [] =
           zip (map int [0..<length (labels ann)]) (labels ann)
       \<and> (\<forall>name i. map_of (idx_to_class_loop (get_class_labels ann) []) i = Some name
              \<longleftrightarrow> map_of (get_class_labels ann) name = Some i)"
proof -
  let ?is = "map int [0..<length (labels ann)]"
  have d: "distinct ?is" by (simp add: distinct_map)
  have inv: "map_of (zip ?is (labels ann)) i = Some name
             \<longleftrightarrow> map_of (zip (labels ann) ?is) name = Some i" for name i
    by (rule map_of_zip_swap) (simp_all add: assms d)
  have c2i: "get_class_labels ann = zip (labels ann) ?is"
    by (rule class_labels_distinct[OF assms])
  have i2c: "idx_to_class_loop (get_class_labels ann) [] = zip ?is (labels ann)"
    by (rule idx_to_class_distinct[OF assms])
  show ?thesis
    unfolding i2c unfolding c2i using inv by blast
qed

text \<open>The theorem at the vocabulary \<open>a, b, c\<close>.\<close>

theorem class_mapping_three_labels:
  "distinct (labels ex_labels_three)
   \<and> get_class_labels ex_labels_three = [(''a'', 0), (''b'', 1), (''c'', 2)]
   \<and> idx_to_class_loop (get_class_labels ex_labels_three) [] =
       [(0, ''a''), (1, ''b''), (2, ''c'')]"
proof -
  have d: "distinct (labels ex_labels_three)" by (simp add: ex_labels_three_def)
  have up: "map int [0..<3] = [0, 1, 2]" by (simp add: upt_rec)
  show ?thesis
    using d class_mapping_of_distinct_labels[OF d] up
    by (simp add: ex_labels_three_def)
qed

text \<open>
  With the vocabulary \<open>a, b, a\<close> the label \<open>a\<close>, whose first occurrence opens the file,
  gets the index 2 of its last occurrence, and the indices in use are 2 and 1, not 0 and 1.
\<close>

theorem class_mapping_repeated_label:
  "get_class_labels ex_labels_twice = [(''a'', 2), (''b'', 1)]
   \<and> map_of (get_class_labels ex_labels_twice) ''a'' \<noteq> Some 0
   \<and> map snd (get_class_labels ex_labels_twice) = [2, 1]"
  by (simp add: get_class_labels_def ex_labels_twice_def)

subsection \<open>Retained descriptors\<close>

lemma make_sample_Inr:
  assumes "make_sample fs root c2i n i va = Inr r"
  shows "r = spec_retained fs root c2i va"
proof (cases "py_mod i (n div 5)")
  case (Inl e)
  then show ?thesis using assms unfolding make_sample_def by simp
next
  case m: (Inr m)
  show ?thesis
  proof (cases "resolve_label c2i (snd va)")
    case (Inl e)
    then show ?thesis using assms m unfolding make_sample_def by simp
  next
    case (Inr pair)
    obtain lab label_id where pair: "pair = (lab, label_id)" by (cases pair)
    have "make_sample fs root c2i n i va = Inr (spec_retained fs root c2i va)"
      unfolding make_sample_def spec_retained_def spec_descriptor_def Let_def m Inr pair
      by simp
    then show ?thesis using assms by simp
  qed
qed

lemma spec_retained_Some:
  assumes "spec_retained fs root c2i va = Some s"
  shows "snd (segment s) \<noteq> 1 \<and> fs (video s) \<noteq> None
       \<and> frame_indices s = py_range (fst (segment s)) (snd (segment s))
       \<and> segment s = ann_segment (snd va) \<and> video_id s = fst va"
proof (cases "resolve_label c2i (snd va)")
  case (Inl e)
  then show ?thesis using assms unfolding spec_retained_def by simp
next
  case (Inr pair)
  obtain lab label_id where pair: "pair = (lab, label_id)" by (cases pair)
  let ?d = "spec_descriptor root lab label_id va"
  have "(if fs (video ?d) \<noteq> None \<and> snd (segment ?d) \<noteq> 1 then Some ?d else None) = Some s"
    using assms unfolding spec_retained_def Inr pair by (simp add: Let_def)
  then have d: "s = ?d" and keep: "fs (video ?d) \<noteq> None \<and> snd (segment ?d) \<noteq> 1"
    by (auto split: if_splits)
  show ?thesis using keep unfolding d by (simp add: spec_descriptor_def)
qed

lemma in_set_map_filter:
  "s \<in> set (List.map_filter f xs) \<Longrightarrow> \<exists>x. f x = Some s"
  by (auto simp: List.map_filter_def)

lemma make_dataset_loop_spec:
  "make_dataset_loop fs root c2i n i vas acc = Inr ds \<Longrightarrow>
   ds = acc @ List.map_filter (spec_retained fs root c2i) vas"
proof (induction vas arbitrary: i acc)
  case Nil
  then show ?case by (simp add: List.map_filter_simps)
next
  case (Cons va vas)
  show ?case
  proof (cases "make_sample fs root c2i n i va")
    case (Inl e)
    then show ?thesis using Cons.prems by simp
  next
    case (Inr r)
    have r: "spec_retained fs root c2i va = r" using make_sample_Inr[OF Inr] by simp
    show ?thesis
    proof (cases r)
      case None
      have step: "make_dataset_loop fs root c2i n (Suc i) vas acc = Inr ds"
        using Cons.prems Inr None by simp
      show ?thesis using Cons.IH[OF step] r None by (simp add: List.map_filter_simps)
    next
      case (Some s)
      have step: "make_dataset_loop fs root c2i n (Suc i) vas (acc @ [s]) = Inr ds"
        using Cons.prems Inr Some by simp
      show ?thesis using Cons.IH[OF step] r Some by (simp add: List.map_filter_simps)
    qed
  qed
qed

text \<open>
  The build returns when at least five videos carry the subset tag and every label they
  name is in the vocabulary.
\<close>

lemma make_dataset_loop_returns:
  assumes "0 < n div 5"
    and "list_all (\<lambda>va. resolve_label c2i (snd va) \<noteq> Inl KeyError) vas"
  shows "\<exists>ds. make_dataset_loop fs root c2i n i vas acc = Inr ds"
  using assms(2)
proof (induction vas arbitrary: i acc)
  case Nil
  then show ?case by simp
next
  case (Cons va vas)
  have m: "py_mod i (n div 5) = Inr (i mod (n div 5))"
    using assms(1) by (simp add: py_mod_def)
  obtain lab label_id where l: "resolve_label c2i (snd va) = Inr (lab, label_id)"
    using Cons.prems
    by (cases "resolve_label c2i (snd va)")
       (auto simp: resolve_label_def split: option.splits)
  have "\<exists>r. make_sample fs root c2i n i va = Inr r"
    unfolding make_sample_def m l by (auto simp: Let_def)
  then obtain r where r: "make_sample fs root c2i n i va = Inr r" ..
  have rest: "list_all (\<lambda>va. resolve_label c2i (snd va) \<noteq> Inl KeyError) vas"
    using Cons.prems by simp
  show ?case using r Cons.IH[OF rest] by (cases r) simp_all
qed

text \<open>
  Claim C6, as amended. When \<open>make_dataset\<close> returns, its dataset is, in annotation
  order, the descriptors of exactly the candidates whose archive exists and whose segment
  has an end bound different from 1. So every retained descriptor has an end bound
  different from 1 and an archive in the file system the build looked at, whatever the
  length of its segment.
\<close>

theorem make_dataset_retained_end_bound:
  assumes "make_dataset fs root ann tag = Inr (ds, idx_to_class)"
  shows "ds = List.map_filter (spec_retained fs root (get_class_labels ann))
                (get_video_ids_and_annotations (database ann) tag)
       \<and> (\<forall>s\<in>set ds. snd (segment s) \<noteq> 1 \<and> fs (video s) \<noteq> None)"
proof -
  let ?vas = "get_video_ids_and_annotations (database ann) tag"
  have "make_dataset_loop fs root (get_class_labels ann) (length ?vas) 0 ?vas [] = Inr ds"
    using assms by (simp add: make_dataset_def Let_def split: sum.splits)
  then have ds: "ds = List.map_filter (spec_retained fs root (get_class_labels ann)) ?vas"
    using make_dataset_loop_spec by fastforce
  have "snd (segment s) \<noteq> 1 \<and> fs (video s) \<noteq> None" if mem: "s \<in> set ds" for s
  proof -
    have "\<exists>va. spec_retained fs root (get_class_labels ann) va = Some s"
      using mem unfolding ds by (rule in_set_map_filter)
    then obtain va where "spec_retained fs root (get_class_labels ann) va = Some s" ..
    then show ?thesis using spec_retained_Some by blast
  qed
  then show ?thesis using ds by blast
qed

text \<open>Every descriptor of the build has the integers of its segment as frame indices.\<close>

lemma make_dataset_frame_indices:
  assumes "make_dataset fs root ann tag = Inr (ds, idx_to_class)"
  shows "\<forall>s\<in>set ds. frame_indices s = py_range (fst (segment s)) (snd (segment s))"
proof -
  let ?vas = "get_video_ids_and_annotations (database ann) tag"
  have "make_dataset_loop fs root (get_class_labels ann) (length ?vas) 0 ?vas [] = Inr ds"
    using assms by (simp add: make_dataset_def Let_def split: sum.splits)
  then have ds: "ds = List.map_filter (spec_retained fs root (get_class_labels ann)) ?vas"
    using make_dataset_loop_spec by fastforce
  have "frame_indices s = py_range (fst (segment s)) (snd (segment s))" if mem: "s \<in> set ds" for s
  proof -
    have "\<exists>va. spec_retained fs root (get_class_labels ann) va = Some s"
      using mem unfolding ds by (rule in_set_map_filter)
    then obtain va where "spec_retained fs root (get_class_labels ann) va = Some s" ..
    then show ?thesis using spec_retained_Some by blast
  qed
  then show ?thesis by blast
qed

text \<open>The path operator on plain names, on pieces to drop and on absolute strings.\<close>

lemma path_div_examples:
  "path_div (path_div [''root''] ''a'') ''v0.hdf5'' = [''root'', ''a'', ''v0.hdf5'']
   \<and> path_div [''root''] [] = [''root'']
   \<and> path_div [''root''] ''a/./b//c'' = [''root'', ''a'', ''b'', ''c'']
   \<and> path_div [''root''] ''/a/b'' = [''/'', ''a'', ''b'']
   \<and> path_div [''root''] ''//a'' = [''//'', ''a'']
   \<and> path_div [''root''] ''///a'' = [''/'', ''a'']
   \<and> path_div [''root''] ''..'' = [''root'', ''..'']"
  by (simp add: path_div_def path_names_def path_anchor_def)

lemma ex_build: 
  "make_dataset ex_build_fs [''root''] ex_annotation ''training'' =
     Inr (ex_retained, [(0, ''a''), (1, ''b'')])"
  by (simp add: make_dataset_def get_class_labels_def make_sample_def resolve_label_def
        path_div_def path_names_def py_mod_def py_range_def upto.simps
        ex_annotation_def ex_entry_def ex_build_fs_def ex_retained_def)

text \<open>
  The build over the example annotation source keeps the training videos \<open>v0\<close>, \<open>v2\<close>
  and \<open>v4\<close>: \<open>v1\<close> has the end bound 1 and \<open>v3\<close> has no archive. The segments kept
  include \<open>[5, 6)\<close> of length 1 and \<open>[3, 3)\<close> of length 0.
\<close>

theorem make_dataset_keeps_short_segments:
  "make_dataset ex_build_fs [''root''] ex_annotation ''training'' =
     Inr (ex_retained, [(0, ''a''), (1, ''b'')])
   \<and> map segment ex_retained = [(5, 6), (3, 3), (0, 4)]
   \<and> map (\<lambda>s. snd (segment s) - fst (segment s)) ex_retained = [1, 0, 4]"
  using ex_build by (simp add: ex_retained_def)

lemma ex_retained_spec:
  "List.map_filter (spec_retained ex_build_fs [''root''] (get_class_labels ex_annotation))
     (get_video_ids_and_annotations (database ex_annotation) ''training'') = ex_retained"
  by (simp add: List.map_filter_simps spec_retained_def spec_descriptor_def resolve_label_def
        get_class_labels_def path_div_def path_names_def py_range_def upto.simps
        ex_annotation_def ex_entry_def ex_build_fs_def ex_retained_def)

text \<open>The theorem at the same build.\<close>

theorem make_dataset_retained_example:
  "make_dataset ex_build_fs [''root''] ex_annotation ''training'' =
     Inr (ex_retained, [(0, ''a''), (1, ''b'')])
   \<and> ex_retained =
       List.map_filter (spec_retained ex_build_fs [''root''] (get_class_labels ex_annotation))
         (get_video_ids_and_annotations (database ex_annotation) ''training'')
   \<and> list_all (\<lambda>s. snd (segment s) \<noteq> 1 \<and> ex_build_fs (video s) \<noteq> None) ex_retained"
  using ex_build make_dataset_retained_end_bound[OF ex_build]
  by (simp add: list_all_iff)

subsection \<open>The progress test\<close>

lemma length_video_ids:
  "length (get_video_ids_and_annotations db tag) =
   length (filter (\<lambda>kv. entry_subset (snd kv) = tag) db)"
  by (induction db tag rule: get_video_ids_and_annotations.induct) auto

text \<open>
  Claim C10. When between one and four videos of the database carry the requested subset
  tag, \<open>make_dataset\<close> raises \<open>ZeroDivisionError\<close>: it returns no dataset, not even a
  partial one. When none does, it returns the empty dataset with the class mapping.
\<close>

theorem make_dataset_few_videos:
  "(let n_videos = length (filter (\<lambda>kv. entry_subset (snd kv) = tag) (database ann))
    in (1 \<le> n_videos \<and> n_videos \<le> 4 \<longrightarrow>
          make_dataset fs root ann tag = Inl ZeroDivisionError)
     \<and> (n_videos = 0 \<longrightarrow>
          make_dataset fs root ann tag =
            Inr ([], idx_to_class_loop (get_class_labels ann) [])))"
proof -
  let ?vas = "get_video_ids_and_annotations (database ann) tag"
  have few: "make_dataset fs root ann tag = Inl ZeroDivisionError"
    if "1 \<le> length ?vas" "length ?vas \<le> 4"
  proof -
    have "?vas \<noteq> []" using that(1) by auto
    then obtain va rest where vas: "?vas = va # rest" by (cases ?vas) auto
    have "length ?vas div 5 = 0" using that(2) by simp
    then have "make_sample fs root (get_class_labels ann) (length ?vas) 0 va
                 = Inl ZeroDivisionError"
      by (simp add: make_sample_def py_mod_def)
    then have "make_dataset_loop fs root (get_class_labels ann) (length ?vas) 0 (va # rest) []
                 = Inl ZeroDivisionError"
      by simp
    then have "make_dataset_loop fs root (get_class_labels ann) (length ?vas) 0 ?vas []
                 = Inl ZeroDivisionError"
      by (simp only: vas[symmetric])
    then show ?thesis
      by (simp add: make_dataset_def)
  qed
  have none: "make_dataset fs root ann tag =
            Inr ([], idx_to_class_loop (get_class_labels ann) [])" if "length ?vas = 0"
    using that by (simp add: make_dataset_def)
  show ?thesis using few none by (simp add: Let_def length_video_ids)
qed

text \<open>
  The theorem at the example annotation source: its two validation videos make the build
  raise, and a subset tag that no video carries gives the empty dataset.
\<close>

theorem make_dataset_few_videos_example:
  "make_dataset ex_build_fs [''root''] ex_annotation ''validation'' = Inl ZeroDivisionError
   \<and> make_dataset ex_build_fs [''root''] ex_annotation ''testing'' =
       Inr ([], [(0, ''a''), (1, ''b'')])"
  using make_dataset_few_videos[of "''validation''" ex_annotation ex_build_fs "[''root'']"]
        make_dataset_few_videos[of "''testing''" ex_annotation ex_build_fs "[''root'']"]
  by (simp add: ex_annotation_def ex_entry_def get_class_labels_def)

section \<open>Properties of the archive reader\<close>

text \<open>
  When the collection stays readable, the loop returns the frames of the requested indices
  up to the first index that is not below the length of the collection.
\<close>

lemma video_loader_loop_readable:
  "ds_valid vd \<Longrightarrow> list_all (\<lambda>i. 0 \<le> i) idxs \<Longrightarrow>
   video_loader_loop vd idxs acc =
     Inr (acc @ map (\<lambda>i. Image_open (ds_blobs vd ! nat i))
                    (takeWhile (\<lambda>i. i < int (length (ds_blobs vd))) idxs))"
  by (induction idxs arbitrary: acc) (auto simp: h5_len_def h5_getitem_def py_index_def)

lemma video_loader_readable:
  "fs p = Some blobs \<Longrightarrow> list_all (\<lambda>i. 0 \<le> i) idxs \<Longrightarrow>
   video_loader Objects_stay_readable fs p idxs =
     Inr (map (\<lambda>i. Image_open (blobs ! nat i)) (takeWhile (\<lambda>i. i < int (length blobs)) idxs))"
  by (simp add: video_loader_def video_loader_loop_readable)

lemma video_loader_readable_example:
  "video_loader Objects_stay_readable ex_fs2 ex_path [0, 1, 2] = Inr [Image_open 10, Image_open 11]"
  by (simp add: video_loader_def ex_fs2_def h5_len_def h5_getitem_def py_index_def)

text \<open>
  Claim C3. The request for the indices 0, 1, 2 against the archive of two frames: the
  collection is read after the file has been closed, and the call raises instead of
  returning the two frames.
\<close>

theorem video_loader_partial_request_raises:
  "video_loader Objects_invalidated ex_fs2 ex_path [0, 1, 2] = Inl ClosedFileError"
  by (simp add: video_loader_def ex_fs2_def h5_len_def)

text \<open>
  Claim C4. The collection is bound inside the \<open>with\<close> block and read after it. When
  closing the file invalidates the collection, every call with at least one requested
  index raises: \<open>OSError\<close> if the archive is missing, the error of the closed file
  otherwise.
\<close>

theorem video_loader_reads_after_close:
  "idxs \<noteq> [] \<Longrightarrow>
   video_loader Objects_invalidated fs p idxs =
     Inl (if fs p = None then OSError else ClosedFileError)"
  by (cases idxs) (auto simp: video_loader_def h5_len_def split: option.splits)

text \<open>The theorem at one index of the four-frame archive, and at a path with no archive.\<close>

theorem video_loader_reads_after_close_example:
  "video_loader Objects_invalidated ex_fs4 ex_path [0] = Inl ClosedFileError
   \<and> video_loader Objects_invalidated ex_fs4 [''root'', ''missing.hdf5''] [0] = Inl OSError"
  using video_loader_reads_after_close[of "[0]" ex_fs4 ex_path]
        video_loader_reads_after_close[of "[0]" ex_fs4 "[''root'', ''missing.hdf5'']"]
  by (simp add: ex_fs4_def ex_path_def)

section \<open>Properties of the temporal windower\<close>

lemma range_up_starts:
  "0 < stride \<Longrightarrow> range_up t stop stride = window_starts t stop stride"
proof (induction t stop stride rule: range_up.induct)
  case (1 t stop step)
  show ?case
  proof (cases "t < stop")
    case True
    have ih: "range_up (t + step) stop step = window_starts (t + step) stop step"
      using 1 True by simp
    have q: "(stop - t + step - 1) div step = (stop - (t + step) + step - 1) div step + 1"
    proof -
      have "stop - t + step - 1 = (stop - (t + step) + step - 1) + step" by simp
      then show ?thesis using 1(2) by (metis div_add_self2 less_irrefl)
    qed
    have nn: "0 \<le> (stop - (t + step) + step - 1) div step"
      using True 1(2) by (simp add: pos_imp_zdiv_nonneg_iff)
    have n: "nat ((stop - t + step - 1) div step)
             = Suc (nat ((stop - (t + step) + step - 1) div step))"
      using q nn by simp
    have "window_starts t stop step = t # window_starts (t + step) stop step"
      unfolding window_starts_def n
      by (simp add: upt_conv_Cons map_Suc_upt[symmetric] algebra_simps del: upt_Suc)
    then show ?thesis using ih True 1(2) by (simp add: range_up.simps[of t])
  next
    case False
    have "(stop - t + step - 1) div step \<le> 0"
    proof -
      have "stop - t + step - 1 < step" using False by simp
      then show ?thesis
        using 1(2) by (cases "stop - t + step - 1 < 0")
          (simp_all add: pos_imp_zdiv_neg_iff less_imp_le div_pos_pos_trivial)
    qed
    then show ?thesis using False by (simp add: range_up.simps[of t] window_starts_def)
  qed
qed

text \<open>The starts are exactly the values \<open>t0 + k * stride\<close> below \<open>t1\<close>.\<close>

lemma range_up_complete:
  "0 < stride \<Longrightarrow> (t + int k * stride < stop) = (k < length (range_up t stop stride))"
proof (induction t stop stride arbitrary: k rule: range_up.induct)
  case (1 t stop step)
  show ?case
  proof (cases "t < stop")
    case True
    have unfold: "range_up t stop step = t # range_up (t + step) stop step"
      using True 1(2) by (simp add: range_up.simps[of t])
    show ?thesis
    proof (cases k)
      case 0
      then show ?thesis using True unfold by simp
    next
      case (Suc j)
      have "(t + step + int j * step < stop) = (j < length (range_up (t + step) stop step))"
        using 1 True by simp
      then show ?thesis using Suc unfold by (simp add: algebra_simps)
    qed
  next
    case False
    have "0 \<le> int k * step" using 1(2) by simp
    then have "\<not> t + int k * step < stop" using False by linarith
    then show ?thesis using False by (simp add: range_up.simps[of t])
  qed
qed

lemma window_starts_complete:
  "0 < stride \<Longrightarrow>
   (t0 + int k * stride < t1) = (k < length (window_starts t0 t1 stride))"
  using range_up_complete[of stride t0 k t1] by (simp add: range_up_starts)

lemma upt_join: "[a..<a + b] @ [a + b..<a + b + c] = [a..<a + b + (c::nat)]"
  using upt_add_eq_append[of a "a + b" c] by simp

lemma window_loop_eq:
  "window_loop st x (snd (segment x)) D ts acc =
     (st @ map (window_of x D) ts, acc @ [length st..<length st + length ts])"
proof (induction ts arbitrary: st acc)
  case Nil
  then show ?case by simp
next
  case (Cons t ts)
  have "[length st..<length st + Suc (length ts)] =
        length st # [Suc (length st)..<Suc (length st) + length ts]"
    by (simp add: upt_conv_Cons del: upt_Suc)
  then show ?case using Cons[of "st @ [window_of x D t]" "acc @ [length st]"]
    by (simp add: window_of_def Let_def del: upt_Suc)
qed

lemma sliding_loop_eq:
  "0 < S \<Longrightarrow> list_all (\<lambda>r. r < length st0) rs \<Longrightarrow>
   sliding_loop (st0 @ ext) D S rs acc =
     Inr (st0 @ ext @ concat (map (\<lambda>r. sliding_windows (st0 ! r) D S) rs),
          acc @ [length (st0 @ ext)..<
                 length (st0 @ ext) + length (concat (map (\<lambda>r. sliding_windows (st0 ! r) D S) rs))])"
proof (induction rs arbitrary: ext acc)
  case Nil
  then show ?case by simp
next
  case (Cons r rs)
  let ?x = "st0 ! r"
  let ?w = "sliding_windows ?x D S"
  have r: "r < length st0" and rs: "list_all (\<lambda>r. r < length st0) rs"
    using Cons.prems(2) by simp_all
  have x: "(st0 @ ext) ! r = ?x" using r by (simp add: nth_append)
  have rng: "py_range_step (fst (segment ?x)) (snd (segment ?x)) S =
             Inr (window_starts (fst (segment ?x)) (snd (segment ?x)) S)"
    using Cons.prems(1) by (simp add: py_range_step_def range_up_starts)
  have wl: "window_loop (st0 @ ext) ?x (snd (segment ?x)) D
              (window_starts (fst (segment ?x)) (snd (segment ?x)) S) acc =
            (st0 @ (ext @ ?w), acc @ [length (st0 @ ext)..<length (st0 @ ext) + length ?w])"
    by (simp add: window_loop_eq sliding_windows_def)
  have ih: "sliding_loop (st0 @ (ext @ ?w)) D S rs
              (acc @ [length (st0 @ ext)..<length (st0 @ ext) + length ?w]) =
     Inr (st0 @ (ext @ ?w) @ concat (map (\<lambda>r. sliding_windows (st0 ! r) D S) rs),
          (acc @ [length (st0 @ ext)..<length (st0 @ ext) + length ?w]) @
             [length (st0 @ (ext @ ?w))..<
                 length (st0 @ (ext @ ?w)) + length (concat (map (\<lambda>r. sliding_windows (st0 ! r) D S) rs))])"
    by (rule Cons.IH[OF Cons.prems(1) rs])
  have upt: "[length (st0 @ ext)..<length (st0 @ ext) + length ?w] @
             [length (st0 @ (ext @ ?w))..<
                 length (st0 @ (ext @ ?w)) + length (concat (map (\<lambda>r. sliding_windows (st0 ! r) D S) rs))]
           = [length (st0 @ ext)..<
                 length (st0 @ ext) + length (concat (map (\<lambda>r. sliding_windows (st0 ! r) D S) (r # rs)))]"
    using upt_join[of "length (st0 @ ext)" "length ?w"
        "length (concat (map (\<lambda>r. sliding_windows (st0 ! r) D S) rs))"]
    by (simp add: add.assoc)
  show ?case
    apply (simp only: sliding_loop.simps Let_def x rng sum.case wl prod.case ih)
    using upt by simp
qed

lemma map_nth_append_upt:
  "map ((!) (xs @ ws)) [length xs..<length xs + length ws] = ws"
proof -
  have "[length xs..<length xs + length ws] = map (\<lambda>i. i + length xs) [0..<length ws]"
    by (simp add: map_add_upt add.commute)
  then have "map ((!) (xs @ ws)) [length xs..<length xs + length ws] =
             map (\<lambda>i. ws ! i) [0..<length ws]"
    by (simp add: nth_append)
  then show ?thesis by (simp add: map_nth)
qed

text \<open>
  Claim C5. For a positive stride, on a dataset whose references point into its store,
  \<open>temporal_sliding_window\<close> returns normally and the dataset then lists, for each old
  descriptor in order, the windows the specification asks for: they start at \<open>t0\<close>,
  \<open>t0 + S\<close>, ... below \<open>t1\<close>, each with the segment \<open>[start, min (start + D) t1)\<close>,
  the frame indices of that range and the other fields of the old descriptor. The new
  descriptors are new dictionaries, distinct from each other and from the old ones, which
  are left as they were.
\<close>

theorem temporal_sliding_window_windows:
  assumes "0 < S" and "list_all (\<lambda>r. r < length (store self)) (data self)"
  shows "\<exists>self'. temporal_sliding_window self D S = (Inr (), self')
          \<and> map ((!) (store self')) (data self') =
              concat (map (\<lambda>r. sliding_windows (store self ! r) D S) (data self))
          \<and> distinct (data self')
          \<and> list_all (\<lambda>r. length (store self) \<le> r \<and> r < length (store self')) (data self')
          \<and> take (length (store self)) (store self') = store self"
proof -
  let ?ws = "concat (map (\<lambda>r. sliding_windows (store self ! r) D S) (data self))"
  have "sliding_loop (store self @ []) D S (data self) [] =
          Inr (store self @ [] @ ?ws,
               [] @ [length (store self @ [])..<length (store self @ []) + length ?ws])"
    by (rule sliding_loop_eq[OF assms])
  then have run: "temporal_sliding_window self D S =
     (Inr (), self\<lparr>store := store self @ ?ws,
                   data := [length (store self)..<length (store self) + length ?ws]\<rparr>)"
    by (simp add: temporal_sliding_window_def)
  show ?thesis
    unfolding run
    by (rule exI[of _ "self\<lparr>store := store self @ ?ws,
                   data := [length (store self)..<length (store self) + length ?ws]\<rparr>"])
       (simp add: map_nth_append_upt list_all_iff del: upt_Suc)
qed

lemma sliding_windows_example:
  "map segment (sliding_windows (store ex_long ! 0) 4 4) = [(0, 4), (4, 8), (8, 10)]
   \<and> map frame_indices (sliding_windows (store ex_long ! 0) 4 4) =
       [[0, 1, 2, 3], [4, 5, 6, 7], [8, 9]]"
proof -
  have "[0..<nat (13 div 4)] = [0, 1, 2]" by (simp add: upt_rec)
  then show ?thesis
    by (simp add: sliding_windows_def window_starts_def window_of_def py_range_def upto.simps
          ex_long_def ex_dataset_def ex_sample_def)
qed

text \<open>
  The theorem at the descriptor with segment \<open>[0, 10)\<close>, duration 4 and stride 4: the
  windows are \<open>[0, 4)\<close>, \<open>[4, 8)\<close> and \<open>[8, 10)\<close>.
\<close>

theorem temporal_sliding_window_example:
  "fst (temporal_sliding_window ex_long 4 4) = Inr ()
   \<and> map (\<lambda>r. segment (store (snd (temporal_sliding_window ex_long 4 4)) ! r))
         (data (snd (temporal_sliding_window ex_long 4 4))) = [(0, 4), (4, 8), (8, 10)]
   \<and> map (\<lambda>r. frame_indices (store (snd (temporal_sliding_window ex_long 4 4)) ! r))
         (data (snd (temporal_sliding_window ex_long 4 4))) = [[0, 1, 2, 3], [4, 5, 6, 7], [8, 9]]"
proof -
  have refs: "list_all (\<lambda>r. r < length (store ex_long)) (data ex_long)"
    by (simp add: ex_long_def ex_dataset_def)
  obtain self' where run: "temporal_sliding_window ex_long 4 4 = (Inr (), self')"
    and ws: "map ((!) (store self')) (data self') =
             concat (map (\<lambda>r. sliding_windows (store ex_long ! r) 4 4) (data ex_long))"
    using temporal_sliding_window_windows[of 4 ex_long 4, OF _ refs] by auto
  have d: "data ex_long = [0]" by (simp add: ex_long_def ex_dataset_def)
  have ws': "map ((!) (store self')) (data self') = sliding_windows (store ex_long ! 0) 4 4"
    using ws by (simp add: d)
  have "map (\<lambda>r. segment (store self' ! r)) (data self') =
        map segment (map ((!) (store self')) (data self'))"
    by (simp add: o_def)
  moreover have "map (\<lambda>r. frame_indices (store self' ! r)) (data self') =
        map frame_indices (map ((!) (store self')) (data self'))"
    by (simp add: o_def)
  ultimately show ?thesis
    using sliding_windows_example by (simp add: run ws')
qed

section \<open>Properties of the sample assembler\<close>

text \<open>The constructor leaves one reference for each descriptor, each into the store.\<close>

lemma VideoDataset_init_refs:
  assumes "VideoDataset_init closing fs root ann tag sp tt tg = Inr self"
  shows "data self = [0..<length (store self)]
       \<and> list_all (\<lambda>r. r < length (store self)) (data self)"
  using assms
  by (auto simp: VideoDataset_init_def list_all_iff split: sum.splits prod.splits)

text \<open>
  The reader of a dataset is the one the constructor sets, and windowing keeps it.
\<close>

lemma VideoDataset_init_loader:
  "VideoDataset_init closing fs root ann tag sp tt tg = Inr self \<Longrightarrow>
   loader self = video_loader closing fs"
  by (auto simp: VideoDataset_init_def split: sum.splits prod.splits)

lemma temporal_sliding_window_loader:
  "loader (snd (temporal_sliding_window self D S)) = loader self"
  by (simp add: temporal_sliding_window_def split: sum.splits prod.splits)

text \<open>
  \<open>loading\<close> changes nothing but the parameters of the spatial transform.
\<close>

lemma loading_frame:
  "loading self p idxs = (r, self') \<Longrightarrow>
   store self' = store self \<and> data self' = data self
   \<and> target_transform self' = target_transform self"
  by (auto simp: loading_def Let_def split: sum.splits option.splits)

text \<open>
  Without a target transform, every target the multi-window loop appends is the stored
  dictionary itself, and the dictionary is left with the segment of the last window.
\<close>

lemma multi_window_loop_shared:
  assumes "target_transform self = None" and "a < length (store self)"
    and "multi_window_loop self p a ws clips targets = (Inr (Many cs, PList ts), self')"
  shows "ts = targets @ replicate (length ws) (PDict a)
       \<and> (ws \<noteq> [] \<longrightarrow> segment (store self' ! a) = (hd (last ws), last (last ws) + 1))
       \<and> (ws = [] \<longrightarrow> store self' = store self)"
  using assms
proof (induction ws arbitrary: self clips targets)
  case Nil
  then show ?case by simp
next
  case (Cons w ws)
  obtain r self1 where l: "loading self p w = (r, self1)" by (cases "loading self p w")
  note fr = loading_frame[OF l]
  obtain clip where r: "r = Inr clip"
    using Cons.prems(3) l by (cases r) simp_all
  obtain first where f: "py_index w 0 = Inr first"
    using Cons.prems(3) l r by (cases "py_index w 0") simp_all
  obtain final where g: "py_index w (- 1) = Inr final"
    using Cons.prems(3) l r f by (cases "py_index w (- 1)") simp_all
  let ?self2 = "self1\<lparr>store := (store self1)[a := (store self1 ! a)\<lparr>segment := (first, final + 1)\<rparr>]\<rparr>"
  have step: "multi_window_loop ?self2 p a ws (clips @ [clip]) (targets @ [PDict a]) =
              (Inr (Many cs, PList ts), self')"
    using Cons.prems(3) l r f g fr Cons.prems(1) by (simp add: Let_def)
  have tt: "target_transform ?self2 = None" using fr Cons.prems(1) by simp
  have len: "a < length (store ?self2)" using fr Cons.prems(2) by simp
  note ih = Cons.IH[OF tt len step]
  have wne: "w \<noteq> []" using f by (auto simp: py_index_def)
  have hd: "first = hd w" using f wne by (cases w) (auto simp: py_index_def)
  have "nat (int (length w) - 1) = length w - 1" by arith
  then have lst: "final = last w"
    using g wne by (auto simp: py_index_def last_conv_nth split: if_splits)
  have seg2: "segment (store ?self2 ! a) = (hd w, last w + 1)"
    using fr Cons.prems(2) hd lst by simp
  show ?case
  proof (cases "ws = []")
    case True
    then show ?thesis using ih seg2 by simp
  next
    case False
    then show ?thesis using ih by (simp add: replicate_app_Cons_same)
  qed
qed

lemmas ex_dataset_defs =
  ex_dataset_def ex_sample_def ex_spatial_def ex_fs4_def ex_path_def

lemmas run_defs =
  getitem_def loading_def video_loader_def h5_len_def h5_getitem_def py_index_def
  torch_stack_def stack_shapes_def permute_1023_def Let_def

text \<open>
  With a target transform that copies the segment out of the dictionary while the loop is
  at a window, the targets of the two windows are \<open>[0, 2]\<close> and \<open>[2, 4]\<close>.
\<close>

lemma getitem_multi_window_copied_segments:
  "fst (getitem ex_dataset_segments 0) =
     Inr (Many [[3, 2, 112, 112], [3, 2, 112, 112]],
          PList [PList [PInt 0, PInt 2], PList [PInt 2, PInt 4]])"
  by (simp add: ex_dataset_segments_def ex_segment_transform_def ex_dataset_defs run_defs)

text \<open>
  Claim C1. The temporal transform returns \<open>[[0, 1], [2, 3]]\<close> and there is no target
  transform. Two clips and two targets come back, but both targets are the stored
  dictionary itself, and its segment, written once per window, is \<open>(2, 4)\<close> when the
  call returns: the first target does not carry \<open>[0, 2]\<close>. With the reader as the
  library behaves, the call returns nothing: it raises at the first window.
\<close>

theorem getitem_multi_window_shared_target:
  "fst (getitem ex_dataset 0) =
     Inr (Many [[3, 2, 112, 112], [3, 2, 112, 112]], PList [PDict 0, PDict 0])
   \<and> map segment (store (snd (getitem ex_dataset 0))) = [(2, 4)]
   \<and> fst (getitem ex_dataset_closed 0) = Inl ClosedFileError"
  by (simp add: ex_dataset_closed_def ex_dataset_defs run_defs)

text \<open>
  With a dataset object whose reader does return the frames, the same call would change
  the stored descriptor: its segment, \<open>(0, 4)\<close> before, is \<open>(2, 4)\<close> after, next to
  frame indices that still cover \<open>[0, 4)\<close>.
\<close>

lemma getitem_multi_window_latent_overwrite:
  "map segment (store ex_dataset) = [(0, 4)]
   \<and> map segment (store (snd (getitem ex_dataset 0))) = [(2, 4)]
   \<and> map frame_indices (store (snd (getitem ex_dataset 0))) = [[0, 1, 2, 3]]"
  by (simp add: ex_dataset_defs run_defs)

subsection \<open>The reader as the constructor sets it\<close>





subsection \<open>The single-window clip\<close>

lemma length_py_range: "length (py_range a b) = nat (b - a)"
  by (simp add: py_range_def)

lemma tensor_shapes_all:
  "list_all (\<lambda>f. g f = Tensor sh) frames \<Longrightarrow>
   tensor_shapes (map g frames) = Inr (replicate (length frames) sh)"
  by (induction frames) simp_all

lemma stack_shapes_replicate:
  "0 < n \<Longrightarrow> stack_shapes (replicate n sh) = Inr (n # sh)"
  by (cases n) (simp_all add: stack_shapes_def list_all_iff)

text \<open>
  What the rest of the path computes from frames: for a descriptor with a non-empty
  segment \<open>[t0, t1)\<close> whose frame indices are the integers of that range, no temporal
  transform, a dataset object whose reader returns one frame for each requested index, and
  a spatial transform that turns each of these frames into a tensor of shape
  \<open>(c, h, w)\<close>, the clip has the shape \<open>(c, t1 - t0, h, w)\<close>.
\<close>

lemma getitem_single_window_given_frames:
  assumes idx: "py_index (data self) index = Inr a"
    and tt: "temporal_transform self = None"
    and seg: "segment (store self ! a) = (t0, t1)" and ne: "t0 < t1"
    and fi: "frame_indices (store self ! a) = py_range t0 t1"
    and ld: "loader self (video (store self ! a)) (py_range t0 t1) = Inr frames"
    and len: "length frames = length (py_range t0 t1)"
    and sp: "spatial_transform self = Some sp"
    and sh: "list_all (\<lambda>f. call sp (randomize_parameters sp (params sp)) f = Tensor [c, h, w]) frames"
  shows "getitem self index =
           (Inr (One [c, nat (t1 - t0), h, w],
                 (case target_transform self of
                    None \<Rightarrow> PDict a
                  | Some f \<Rightarrow> f a (store self ! a))),
            self\<lparr>spatial_transform :=
                   Some (sp\<lparr>params := randomize_parameters sp (params sp)\<rparr>)\<rparr>)"
proof -
  let ?self' = "self\<lparr>spatial_transform :=
                   Some (sp\<lparr>params := randomize_parameters sp (params sp)\<rparr>)\<rparr>"
  have n: "length frames = nat (t1 - t0)" using len by (simp add: length_py_range)
  have pos: "0 < length frames" using n ne by simp
  have st: "torch_stack (map (call sp (randomize_parameters sp (params sp))) frames) =
            Inr [nat (t1 - t0), c, h, w]"
    using tensor_shapes_all[OF sh] stack_shapes_replicate[OF pos, of "[c, h, w]"] n
    by (simp add: torch_stack_def)
  have load: "loading self (video (store self ! a)) (py_range t0 t1) =
              (Inr [c, nat (t1 - t0), h, w], ?self')"
    by (simp add: loading_def ld sp st permute_1023_def)
  obtain i rest where r: "py_range t0 t1 = i # rest"
    using ne by (cases "py_range t0 t1") (simp_all add: py_range_def upto_rec1)
  show ?thesis
    using load by (simp add: getitem_def idx tt fi r split: option.splits)
qed

text \<open>
  Claim C8. The constructor over the example annotation source, with a spatial transform
  and no temporal transform: the third descriptor has the segment \<open>[0, 4)\<close>, frame
  indices 0 to 3 and an archive of four frames, so every index is within the archive. The
  call raises in the reader, which reads the collection after the file is closed, and
  returns no clip. With a reader whose collection stays readable the same call returns the
  clip of shape \<open>(3, 4, 112, 112)\<close>.
\<close>

theorem getitem_single_window_closed_reader:
  "VideoDataset_init Objects_invalidated ex_build_fs [''root''] ex_annotation ''training''
      (Some ex_spatial) None None = Inr ex_built_closed
   \<and> segment (store ex_built_closed ! 2) = (0, 4)
   \<and> frame_indices (store ex_built_closed ! 2) = [0, 1, 2, 3]
   \<and> ex_build_fs (video (store ex_built_closed ! 2)) = Some [10, 11, 12, 13]
   \<and> fst (getitem ex_built_closed 2) = Inl ClosedFileError
   \<and> fst (getitem ex_built 2) = Inr (One [3, 4, 112, 112], PDict 2)"
proof -
  have up: "[0..<3] = [0, 1, 2]" by (simp add: upt_rec)
  have len: "length ex_retained = 3" by (simp add: ex_retained_def)
  have init: "VideoDataset_init Objects_invalidated ex_build_fs [''root''] ex_annotation
                ''training'' (Some ex_spatial) None None = Inr ex_built_closed"
    by (simp add: VideoDataset_init_def ex_build ex_built_closed_def ex_built_def len up)
  have d: "store ex_built_closed ! 2 =
             \<lparr>video = [''root'', ''a'', ''v4.hdf5''], segment = (0, 4),
              frame_indices = [0, 1, 2, 3], video_id = ''v4'', label = 0\<rparr>"
    by (simp add: ex_built_closed_def ex_built_def ex_retained_def)
  have arch: "ex_build_fs [''root'', ''a'', ''v4.hdf5''] = Some [10, 11, 12, 13]"
    by (simp add: ex_build_fs_def)
  have closed: "fst (getitem ex_built_closed 2) = Inl ClosedFileError"
    using d arch
    by (simp add: getitem_def py_index_def loading_def video_loader_def h5_len_def
          ex_built_closed_def ex_built_def)
  have d': "store ex_built ! 2 = store ex_built_closed ! 2"
    by (simp add: ex_built_closed_def)
  have readable: "fst (getitem ex_built 2) = Inr (One [3, 4, 112, 112], PDict 2)"
    using d arch unfolding d'[symmetric]
    by (simp add: run_defs ex_built_def ex_spatial_def)
  show ?thesis using init d arch closed readable by simp
qed

section \<open>Properties of the batch collator\<close>












text \<open>Single-clip samples: integer targets are stacked, dictionary targets are returned in order.\<close>

lemma collate_fn_single_clip_examples:
  "collate_fn [(One [3, 16, 112, 112], PInt 0), (One [3, 16, 112, 112], PInt 1)] =
     Inr ([2, 3, 16, 112, 112], IntTensor [0, 1])
   \<and> collate_fn [(One [3, 16, 112, 112], PDict 0), (One [3, 16, 112, 112], PDict 1)] =
       Inr ([2, 3, 16, 112, 112], TargetList [PDict 0, PDict 1])"
  by (simp add: collate_fn_def default_collate_clips_def stack_shapes_def in_int64_def)

end
